theory Spec2Isabelle
  imports Complex_Main "HOL-Library.Word" "HOL-Library.AList" "HOL-Library.Multiset"
begin

unbundle bit_operations_syntax

section \<open>The clock-sequence generators of UUID_benchmark.py\<close>

text \<open>
  The four generators take no argument; what they return is decided by the randomness
  source they read. The model makes that source an argument: the successive 32-bit
  outputs of the Mersenne Twister for \<open>random.getrandbits\<close>, and the bytes the operating
  system hands to \<open>os.urandom\<close> (or its refusal) for the other three. Python integers are
  \<open>int\<close>, bytes are 8-bit words, an exception is the \<open>Inl\<close> branch of a sum.
\<close>

type_synonym byte = "8 word"

datatype byteorder = Big | Little

datatype py_error =
    ValueError
  | OSError
  | StatisticsError
  | ZeroDivisionError

text \<open>
  \<open>int.from_bytes(bytes, byteorder, *, signed=False)\<close>. The keyword argument is an
  option: \<open>None\<close> when the caller leaves it out, and the default \<open>False\<close> applies.
\<close>

definition int_from_bytes :: "byte list \<Rightarrow> byteorder \<Rightarrow> bool option \<Rightarrow> int" where
  "int_from_bytes bs order kw_signed =
     (let signed = (case kw_signed of None \<Rightarrow> False | Some s \<Rightarrow> s);
          ds = (case order of Big \<Rightarrow> bs | Little \<Rightarrow> rev bs);
          u = foldl (\<lambda>acc b. 256 * acc + uint b) 0 ds
      in if signed \<and> ds \<noteq> [] \<and> 2 ^ (8 * length ds - 1) \<le> u then u - 2 ^ (8 * length ds) else u)"

text \<open>
  The operating system's entropy source at one call: unavailable, or supplying the bytes
  \<open>f 0\<close>, \<open>f 1\<close>, ... \<open>os.urandom(n)\<close> returns the first \<open>n\<close> of them, or raises.
\<close>

datatype entropy = Unavailable | Supplies "nat \<Rightarrow> byte"

definition urandom :: "entropy \<Rightarrow> nat \<Rightarrow> py_error + byte list" where
  "urandom src n = (case src of Unavailable \<Rightarrow> Inl OSError | Supplies f \<Rightarrow> Inr (map f [0..<n]))"

text \<open>
  \<open>random.getrandbits(k)\<close> of CPython: up to 32 bits are the top \<open>k\<close> bits of one
  32-bit output of the twister; more bits are assembled from several outputs, the least
  significant word first. \<open>mt i\<close> is the \<open>i\<close>-th output from the current state.
\<close>

definition random_getrandbits :: "(nat \<Rightarrow> 32 word) \<Rightarrow> int \<Rightarrow> py_error + int" where
  "random_getrandbits mt k =
     (if k < 0 then Inl ValueError
      else if k = 0 then Inr 0
      else if k \<le> 32 then Inr (uint (drop_bit (nat (32 - k)) (mt 0)))
      else let words = nat ((k - 1) div 32 + 1) in
        Inr (\<Sum>i<words.
               2 ^ (32 * i) *
               uint (if k - 32 * int i < 32 then drop_bit (nat (32 - (k - 32 * int i))) (mt i)
                     else mt i)))"

text \<open>
  \<open>secrets.randbits(k)\<close> is \<open>SystemRandom().getrandbits(k)\<close>: it reads
  \<open>(k + 7) // 8\<close> bytes from \<open>os.urandom\<close>, reads them as a big-endian integer and shifts
  the excess bits out.
\<close>

definition secrets_randbits :: "entropy \<Rightarrow> int \<Rightarrow> py_error + int" where
  "secrets_randbits src k =
     (if k < 0 then Inl ValueError
      else let numbytes = (k + 7) div 8 in
        case urandom src (nat numbytes) of
          Inl e \<Rightarrow> Inl e
        | Inr bs \<Rightarrow> Inr (drop_bit (nat (numbytes * 8 - k)) (int_from_bytes bs Big None)))"

definition current_clock_sequence :: "(nat \<Rightarrow> 32 word) \<Rightarrow> py_error + int" where
  "current_clock_sequence mt = random_getrandbits mt 14"

definition clockseq_secrets :: "entropy \<Rightarrow> py_error + int" where
  "clockseq_secrets src = secrets_randbits src 14"

definition clockseq_urandom :: "entropy \<Rightarrow> py_error + int" where
  "clockseq_urandom src =
     (case urandom src 2 of
        Inl e \<Rightarrow> Inl e
      | Inr bs \<Rightarrow> Inr (int_from_bytes bs Big None AND 0x3fff))"

definition clockseq_urandom_optimized :: "entropy \<Rightarrow> py_error + int" where
  "clockseq_urandom_optimized src =
     (case urandom src 2 of
        Inl e \<Rightarrow> Inl e
      | Inr bs \<Rightarrow> Inr (int_from_bytes bs Big (Some False) AND 0x3fff))"

section \<open>Floating-point arithmetic and the statistics\<close>

text \<open>
  A Python \<open>float\<close> is an IEEE 754 double. The model represents a finite double by the
  real number it denotes; every operation computes the exact result and rounds it to the
  nearest double, ties to the even significand (53 bits, gradual underflow below
  \<open>2 ^ - 1022\<close>). Overflow to an infinity (results of magnitude \<open>2 ^ 1024\<close> and more, far
  from any elapsed time) and the sign of zero are not modelled. The rounding is a
  parameter \<open>rnd\<close> of the arithmetic, so that the same formulas can also be read in exact
  arithmetic (\<open>rnd = exact\<close>).
\<close>

definition round_half_even :: "real \<Rightarrow> int" where
  "round_half_even x =
     (let n = \<lfloor>x\<rfloor>; r = x - of_int n
      in if r < 1 / 2 then n else if 1 / 2 < r then n + 1 else if even n then n else n + 1)"

definition ulp_exponent :: "real \<Rightarrow> int" where
  "ulp_exponent x = max \<lfloor>log 2 \<bar>x\<bar>\<rfloor> (- 1022) - 52"

definition round_double :: "real \<Rightarrow> real" where
  "round_double x =
     (if x = 0 then 0
      else of_int (round_half_even (x / 2 powi ulp_exponent x)) * 2 powi ulp_exponent x)"


text \<open>An \<open>int\<close> operand of a float operation is converted to a float first.\<close>

definition float_of_int :: "(real \<Rightarrow> real) \<Rightarrow> int \<Rightarrow> real" where
  "float_of_int rnd n = rnd (of_int n)"

definition float_div :: "(real \<Rightarrow> real) \<Rightarrow> real \<Rightarrow> real \<Rightarrow> py_error + real" where
  "float_div rnd a b = (if b = 0 then Inl ZeroDivisionError else Inr (rnd (a / b)))"

definition float_mul :: "(real \<Rightarrow> real) \<Rightarrow> real \<Rightarrow> real \<Rightarrow> real" where
  "float_mul rnd a b = rnd (a * b)"

text \<open>
  \<open>statistics.mean\<close> and \<open>statistics.stdev\<close> (CPython 3.11 and later) on a list of floats:
  the sum, the mean and the sum of squared deviations are computed exactly, as fractions,
  and only the result is rounded. \<open>mean\<close> raises on an empty list, \<open>stdev\<close> on fewer than
  two data points.
\<close>

definition mean :: "(real \<Rightarrow> real) \<Rightarrow> real list \<Rightarrow> py_error + real" where
  "mean rnd xs =
     (if length xs < 1 then Inl StatisticsError
      else Inr (rnd (sum_list xs / of_nat (length xs))))"

definition stdev :: "(real \<Rightarrow> real) \<Rightarrow> real list \<Rightarrow> py_error + real" where
  "stdev rnd xs =
     (let n = length xs in
      if n < 2 then Inl StatisticsError
      else let c = sum_list xs / of_nat n;
               ss = (\<Sum>x\<leftarrow>xs. (x - c)\<^sup>2)
           in Inr (rnd (sqrt (ss / of_nat (n - 1)))))"

text \<open>
  The entry of \<open>results\<close> for one generator, and lines 55 to 63 of \<open>run_benchmark\<close> that
  compute it from the list \<open>times\<close> of batch totals (here \<open>timings\<close>) and \<open>NUM_ITERATIONS\<close>.
\<close>

record metrics =
  avg_ns :: real
  stddev_ns :: real
  ops_per_sec :: real

definition calculate_metrics :: "(real \<Rightarrow> real) \<Rightarrow> real list \<Rightarrow> int \<Rightarrow> py_error + metrics" where
  "calculate_metrics rnd timings num_iterations =
     (case mean rnd timings of Inl e \<Rightarrow> Inl e | Inr m \<Rightarrow>
      case float_div rnd m (float_of_int rnd num_iterations) of Inl e \<Rightarrow> Inl e | Inr q \<Rightarrow>
      let avg_time = float_mul rnd q 1000000000 in
      case stdev rnd timings of Inl e \<Rightarrow> Inl e | Inr s \<Rightarrow>
      case float_div rnd s (float_of_int rnd num_iterations) of Inl e \<Rightarrow> Inl e | Inr q' \<Rightarrow>
      let std_dev = float_mul rnd q' 1000000000 in
      case mean rnd timings of Inl e \<Rightarrow> Inl e | Inr m' \<Rightarrow>
      case float_div rnd (float_of_int rnd num_iterations) m' of Inl e \<Rightarrow> Inl e | Inr ops \<Rightarrow>
      Inr \<lparr>avg_ns = avg_time, stddev_ns = std_dev, ops_per_sec = ops\<rparr>)"

text \<open>The sample variance, exactly; and the batch totals of the specification's example.\<close>

definition variance_exact :: "real list \<Rightarrow> real" where
  "variance_exact xs =
     (\<Sum>x\<leftarrow>xs. (x - sum_list xs / of_nat (length xs))\<^sup>2) / of_nat (length xs - 1)"



section \<open>The benchmark runner\<close>

text \<open>
  The platform a run meets: the interpreter's version string, the randomness each
  generator invocation reads (indexed by the number of invocations made before it), and
  the successive readings of the clock \<open>time.perf_counter\<close> that \<open>timeit\<close> takes.
\<close>

datatype generator =
    CurrentClockSequence
  | ClockseqSecrets
  | ClockseqUrandom
  | ClockseqUrandomOptimized

record platform =
  version :: string
  twister :: "nat \<Rightarrow> nat \<Rightarrow> 32 word"
  os_source :: "nat \<Rightarrow> entropy"
  perf_counter :: "nat \<Rightarrow> real"

text \<open>
  What a run does, as far as an observer can tell: the generator invocations and clock
  readings in the order they happen, and the lines written to standard output. A line
  carries the values that the source formats into it.
\<close>

datatype event = Call generator | Tick

datatype line =
    PythonVersion string
  | BenchmarkingIterations int
  | RunningWarmup
  | BenchmarkingName string
  | Average real real
  | OperationsPerSec real
  | ResultsSummary
  | TableHeader
  | TableRule
  | TableRow string real real real

record state =
  events :: "event list"
  stdout :: "line list"

definition initial_state :: state where
  "initial_state = \<lparr>events = [], stdout = []\<rparr>"

definition calls_made :: "state \<Rightarrow> nat" where
  "calls_made st = length (filter (\<lambda>e. e \<noteq> Tick) (events st))"

definition clock_reads :: "state \<Rightarrow> nat" where
  "clock_reads st = length (filter (\<lambda>e. e = Tick) (events st))"

definition print_line :: "line \<Rightarrow> state \<Rightarrow> state" where
  "print_line l st = st\<lparr>stdout := stdout st @ [l]\<rparr>"

definition run_generator :: "platform \<Rightarrow> nat \<Rightarrow> generator \<Rightarrow> py_error + int" where
  "run_generator pf t g =
     (case g of
        CurrentClockSequence \<Rightarrow> current_clock_sequence (twister pf t)
      | ClockseqSecrets \<Rightarrow> clockseq_secrets (os_source pf t)
      | ClockseqUrandom \<Rightarrow> clockseq_urandom (os_source pf t)
      | ClockseqUrandomOptimized \<Rightarrow> clockseq_urandom_optimized (os_source pf t))"

text \<open>The statement \<open>g()\<close>: the generator is invoked and its value dropped.\<close>

definition call_generator :: "platform \<Rightarrow> generator \<Rightarrow> state \<Rightarrow> py_error + state" where
  "call_generator pf g st =
     (case run_generator pf (calls_made st) g of
        Inl e \<Rightarrow> Inl e
      | Inr v \<Rightarrow> Inr (st\<lparr>events := events st @ [Call g]\<rparr>))"

text \<open>The configuration constants of the module.\<close>

definition NUM_ITERATIONS :: int where
  "NUM_ITERATIONS = 1000000"

definition WARMUP_ROUNDS :: int where
  "WARMUP_ROUNDS = 100"

text \<open>
  A test case pairs the printed name with the statement that \<open>timeit\<close> compiles and runs
  in the module's globals; the statement \<open>g()\<close> is represented by the generator it calls.
\<close>

definition TEST_CASES :: "(string \<times> generator) list" where
  "TEST_CASES =
     [(''current (random.getrandbits)'', CurrentClockSequence),
      (''secrets.getrandbits'', ClockseqSecrets),
      (''os.urandom'', ClockseqUrandom),
      (''os.urandom_optimized'', ClockseqUrandomOptimized)]"

text \<open>The body of the warmup loop, and the loop over \<open>range(WARMUP_ROUNDS)\<close>.\<close>

definition warmup_round :: "platform \<Rightarrow> state \<Rightarrow> py_error + state" where
  "warmup_round pf st =
     (case call_generator pf CurrentClockSequence st of Inl e \<Rightarrow> Inl e | Inr s1 \<Rightarrow>
      case call_generator pf ClockseqSecrets s1 of Inl e \<Rightarrow> Inl e | Inr s2 \<Rightarrow>
      case call_generator pf ClockseqUrandom s2 of Inl e \<Rightarrow> Inl e | Inr s3 \<Rightarrow>
      call_generator pf ClockseqUrandomOptimized s3)"

primrec warmup_loop :: "platform \<Rightarrow> nat \<Rightarrow> state \<Rightarrow> py_error + state" where
  "warmup_loop pf 0 st = Inr st"
| "warmup_loop pf (Suc n) st =
     (case warmup_round pf st of Inl e \<Rightarrow> Inl e | Inr st' \<Rightarrow> warmup_loop pf n st')"

text \<open>
  \<open>timeit.Timer\<close>: \<open>timeit(number)\<close> reads the clock, runs the statement \<open>number\<close> times
  (not at all when \<open>number\<close> is zero or negative), reads the clock again and returns the
  difference; \<open>repeat(repeat, number)\<close> collects the results of \<open>repeat\<close> such batches.
\<close>

definition read_clock :: "platform \<Rightarrow> state \<Rightarrow> real \<times> state" where
  "read_clock pf st = (perf_counter pf (clock_reads st), st\<lparr>events := events st @ [Tick]\<rparr>)"

primrec inner_loop :: "platform \<Rightarrow> generator \<Rightarrow> nat \<Rightarrow> state \<Rightarrow> py_error + state" where
  "inner_loop pf g 0 st = Inr st"
| "inner_loop pf g (Suc n) st =
     (case call_generator pf g st of Inl e \<Rightarrow> Inl e | Inr st' \<Rightarrow> inner_loop pf g n st')"

definition timeit :: "platform \<Rightarrow> generator \<Rightarrow> int \<Rightarrow> state \<Rightarrow> py_error + real \<times> state" where
  "timeit pf g number st =
     (let (t0, s0) = read_clock pf st in
      case inner_loop pf g (nat number) s0 of
        Inl e \<Rightarrow> Inl e
      | Inr s1 \<Rightarrow> let (t1, s2) = read_clock pf s1 in Inr (round_double (t1 - t0), s2))"

primrec repeat_loop ::
  "platform \<Rightarrow> generator \<Rightarrow> nat \<Rightarrow> int \<Rightarrow> real list \<Rightarrow> state \<Rightarrow> py_error + real list \<times> state" where
  "repeat_loop pf g 0 number r st = Inr (r, st)"
| "repeat_loop pf g (Suc k) number r st =
     (case timeit pf g number st of
        Inl e \<Rightarrow> Inl e
      | Inr (t, st') \<Rightarrow> repeat_loop pf g k number (r @ [t]) st')"

definition timer_repeat ::
  "platform \<Rightarrow> generator \<Rightarrow> int \<Rightarrow> int \<Rightarrow> state \<Rightarrow> py_error + real list \<times> state" where
  "timer_repeat pf g repeat number st = repeat_loop pf g (nat repeat) number [] st"

text \<open>
  The configuration of a run. The source fixes it: the two module constants, the literal
  \<open>repeat=5\<close> and \<open>TEST_CASES\<close>. The runner is written over an arbitrary configuration so
  that other values of the counts can be talked about.
\<close>

record config =
  num_iterations :: int
  warmup_rounds :: int
  repeat_count :: int
  test_cases :: "(string \<times> generator) list"

definition module_config :: config where
  "module_config =
     \<lparr>num_iterations = NUM_ITERATIONS, warmup_rounds = WARMUP_ROUNDS, repeat_count = 5,
      test_cases = TEST_CASES\<rparr>"

text \<open>
  The body of the loop over \<open>TEST_CASES\<close>; \<open>results\<close> is a dictionary, kept as an
  association list in insertion order.
\<close>

definition benchmark_case ::
  "config \<Rightarrow> platform \<Rightarrow> string \<times> generator \<Rightarrow> (string \<times> metrics) list \<times> state \<Rightarrow>
     py_error + (string \<times> metrics) list \<times> state" where
  "benchmark_case cfg pf tc rs =
     (let (name, stmt) = tc; (results, st) = rs;
          st1 = print_line (BenchmarkingName name) st in
      case timer_repeat pf stmt (repeat_count cfg) (num_iterations cfg) st1 of
        Inl e \<Rightarrow> Inl e
      | Inr (timings, st2) \<Rightarrow>
          (case calculate_metrics round_double timings (num_iterations cfg) of
             Inl e \<Rightarrow> Inl e
           | Inr m \<Rightarrow>
               Inr (AList.update name m results,
                    print_line (OperationsPerSec (ops_per_sec m))
                      (print_line (Average (avg_ns m) (stddev_ns m)) st2))))"

primrec benchmark_loop ::
  "config \<Rightarrow> platform \<Rightarrow> (string \<times> generator) list \<Rightarrow> (string \<times> metrics) list \<times> state \<Rightarrow>
     py_error + (string \<times> metrics) list \<times> state" where
  "benchmark_loop cfg pf [] rs = Inr rs"
| "benchmark_loop cfg pf (tc # tcs) rs =
     (case benchmark_case cfg pf tc rs of
        Inl e \<Rightarrow> Inl e
      | Inr rs' \<Rightarrow> benchmark_loop cfg pf tcs rs')"

text \<open>The comparison table: the items of \<open>results\<close>, sorted by \<open>avg_ns\<close>, one row each.\<close>

definition sorted_items :: "(string \<times> metrics) list \<Rightarrow> (string \<times> metrics) list" where
  "sorted_items results = sort_key (\<lambda>x. avg_ns (snd x)) results"

definition table_row :: "string \<times> metrics \<Rightarrow> line" where
  "table_row x = TableRow (fst x) (avg_ns (snd x)) (stddev_ns (snd x)) (ops_per_sec (snd x))"

definition print_table :: "(string \<times> metrics) list \<Rightarrow> state \<Rightarrow> state" where
  "print_table results st = foldl (\<lambda>s x. print_line (table_row x) s) st (sorted_items results)"

definition run_benchmark_with :: "config \<Rightarrow> platform \<Rightarrow> py_error + state" where
  "run_benchmark_with cfg pf =
     (let st0 = print_line (PythonVersion (version pf)) initial_state;
          st1 = print_line (BenchmarkingIterations (num_iterations cfg)) st0;
          st2 = print_line RunningWarmup st1 in
      case warmup_loop pf (nat (warmup_rounds cfg)) st2 of
        Inl e \<Rightarrow> Inl e
      | Inr st3 \<Rightarrow>
          (case benchmark_loop cfg pf (test_cases cfg) ([], st3) of
             Inl e \<Rightarrow> Inl e
           | Inr (results, st4) \<Rightarrow>
               Inr (print_table results
                      (print_line TableRule
                        (print_line TableHeader
                          (print_line ResultsSummary st4))))))"

definition run_benchmark :: "platform \<Rightarrow> py_error + state" where
  "run_benchmark pf = run_benchmark_with module_config pf"

text \<open>
  The script calls \<open>run_benchmark()\<close> and nothing else: the process exits with status 0
  when the call returns and with status 1 when an exception leaves it.
\<close>

definition exit_status :: "platform \<Rightarrow> int" where
  "exit_status pf = (case run_benchmark pf of Inl e \<Rightarrow> 1 | Inr st \<Rightarrow> 0)"

section \<open>Describing a run\<close>

text \<open>
  The rest of the definitions are not part of the program: they say what a run is expected
  to do, and the theorems relate the runner to them.

  The first exception among a sequence of generator invocations, the first of which is
  invocation number \<open>t\<close> of the run; \<open>None\<close> when all of them return.
\<close>

primrec first_error :: "platform \<Rightarrow> nat \<Rightarrow> generator list \<Rightarrow> py_error option" where
  "first_error pf t [] = None"
| "first_error pf t (g # gs) =
     (case run_generator pf t g of Inl e \<Rightarrow> Some e | Inr v \<Rightarrow> first_error pf (Suc t) gs)"

text \<open>A sequence of statements \<open>g()\<close>, one after the other, as the loops make them.\<close>

primrec call_all :: "platform \<Rightarrow> generator list \<Rightarrow> state \<Rightarrow> py_error + state" where
  "call_all pf [] st = Inr st"
| "call_all pf (g # gs) st =
     (case call_generator pf g st of Inl e \<Rightarrow> Inl e | Inr st' \<Rightarrow> call_all pf gs st')"

text \<open>
  The generators that \<open>w\<close> warmup rounds invoke; the events of one timed batch of \<open>n\<close>
  invocations (a clock reading before and after) and of \<open>r\<close> such batches; the batch totals
  that \<open>repeat\<close> returns for \<open>r\<close> batches when the clock has been read \<open>c\<close> times before: the
  differences of the readings number \<open>c + 2 * b\<close> and \<open>c + 2 * b + 1\<close>, which enclose batch
  \<open>b\<close>.
\<close>

definition warmup_calls :: "nat \<Rightarrow> generator list" where
  "warmup_calls w =
     concat (replicate w
       [CurrentClockSequence, ClockseqSecrets, ClockseqUrandom, ClockseqUrandomOptimized])"

definition batch_events :: "nat \<Rightarrow> generator \<Rightarrow> event list" where
  "batch_events n g = Tick # replicate n (Call g) @ [Tick]"

definition batches_events :: "nat \<Rightarrow> nat \<Rightarrow> generator \<Rightarrow> event list" where
  "batches_events r n g = concat (replicate r (batch_events n g))"

definition batch_times :: "platform \<Rightarrow> nat \<Rightarrow> nat \<Rightarrow> real list" where
  "batch_times pf c r =
     map (\<lambda>b. round_double (perf_counter pf (c + 2 * b + 1) - perf_counter pf (c + 2 * b))) [0..<r]"

text \<open>The number of generator invocations and of clock readings among some events.\<close>

definition count_calls :: "event list \<Rightarrow> nat" where
  "count_calls es = length (filter (\<lambda>e. e \<noteq> Tick) es)"

definition count_ticks :: "event list \<Rightarrow> nat" where
  "count_ticks es = length (filter (\<lambda>e. e = Tick) es)"

text \<open>
  The measurements of the loop over the test cases, without the state: for each test case
  in turn the first exception of its invocations (\<open>repeat\<close> batches of \<open>number\<close> each), else
  the exception of the statistics on its batch totals, else the same for the remaining
  cases; \<open>t\<close> invocations and \<open>c\<close> clock readings have happened before. When nothing raises,
  the result lists the name and the metrics of every case, in order.
\<close>

primrec measure_all ::
  "config \<Rightarrow> platform \<Rightarrow> nat \<Rightarrow> nat \<Rightarrow> (string \<times> generator) list \<Rightarrow>
     py_error + (string \<times> metrics) list" where
  "measure_all cfg pf t c [] = Inr []"
| "measure_all cfg pf t c (tc # tcs) =
     (case first_error pf t
             (replicate (nat (repeat_count cfg) * nat (num_iterations cfg)) (snd tc)) of
        Some e \<Rightarrow> Inl e
      | None \<Rightarrow>
          (case calculate_metrics round_double (batch_times pf c (nat (repeat_count cfg)))
                  (num_iterations cfg) of
             Inl e \<Rightarrow> Inl e
           | Inr m \<Rightarrow>
               (case measure_all cfg pf (t + nat (repeat_count cfg) * nat (num_iterations cfg))
                       (c + 2 * nat (repeat_count cfg)) tcs of
                  Inl e \<Rightarrow> Inl e
                | Inr ms \<Rightarrow> Inr ((fst tc, m) # ms))))"

text \<open>
  The dictionary \<open>results\<close> after the assignments \<open>results[name] = ...\<close> for the listed
  cases; the events of the measured loop; the three lines printed for one case; and the
  whole output of a complete run, given the interpreter's version, the iteration count and
  the measured cases.
\<close>

definition update_all ::
  "(string \<times> metrics) list \<Rightarrow> (string \<times> metrics) list \<Rightarrow> (string \<times> metrics) list" where
  "update_all results ms = foldl (\<lambda>res x. AList.update (fst x) (snd x) res) results ms"

definition cases_events :: "config \<Rightarrow> (string \<times> generator) list \<Rightarrow> event list" where
  "cases_events cfg tcs =
     concat (map (\<lambda>tc. batches_events (nat (repeat_count cfg)) (nat (num_iterations cfg)) (snd tc))
       tcs)"

definition case_lines :: "string \<times> metrics \<Rightarrow> line list" where
  "case_lines x =
     [BenchmarkingName (fst x), Average (avg_ns (snd x)) (stddev_ns (snd x)),
      OperationsPerSec (ops_per_sec (snd x))]"

definition program_output ::
  "string \<Rightarrow> int \<Rightarrow> (string \<times> metrics) list \<Rightarrow> line list" where
  "program_output v num ms =
     [PythonVersion v, BenchmarkingIterations num, RunningWarmup] @
     concat (map case_lines ms) @
     [ResultsSummary, TableHeader, TableRule] @
     map table_row (sorted_items (update_all [] ms))"

text \<open>
  A complete run of the module, with \<open>w\<close> warmup rounds and \<open>r\<close> batches of \<open>n\<close> iterations:
  the generators it invokes, in order; its events; and its four results, under the names
  of \<open>TEST_CASES\<close>.
\<close>

definition program_calls :: "nat \<Rightarrow> nat \<Rightarrow> nat \<Rightarrow> generator list" where
  "program_calls w r n =
     warmup_calls w @ replicate (r * n) CurrentClockSequence @ replicate (r * n) ClockseqSecrets @
     replicate (r * n) ClockseqUrandom @ replicate (r * n) ClockseqUrandomOptimized"

definition program_events :: "nat \<Rightarrow> nat \<Rightarrow> nat \<Rightarrow> event list" where
  "program_events w r n =
     map Call (warmup_calls w) @ batches_events r n CurrentClockSequence @
     batches_events r n ClockseqSecrets @ batches_events r n ClockseqUrandom @
     batches_events r n ClockseqUrandomOptimized"

definition module_results :: "metrics \<Rightarrow> metrics \<Rightarrow> metrics \<Rightarrow> metrics \<Rightarrow> (string \<times> metrics) list" where
  "module_results m0 m1 m2 m3 = zip (map fst TEST_CASES) [m0, m1, m2, m3]"

text \<open>
  Two platforms for concrete runs: one on which every randomness source is available and
  the clock advances by one second from each reading to the next, and one on which the
  operating system's entropy source is never available.
\<close>

definition steady_platform :: platform where
  "steady_platform =
     \<lparr>version = ''3.11'', twister = (\<lambda>t i. 0), os_source = (\<lambda>t. Supplies (\<lambda>i. 0)),
      perf_counter = (\<lambda>k. of_nat k)\<rparr>"

definition starved_platform :: platform where
  "starved_platform = steady_platform\<lparr>os_source := (\<lambda>t. Unavailable)\<rparr>"

text \<open>The big-endian value of a pair of bytes, used to count preimages.\<close>

definition pair_val :: "byte \<times> byte \<Rightarrow> int" where
  "pair_val p = 256 * uint (fst p) + uint (snd p)"


section \<open>Properties of the generators\<close>

lemma and_3fff: "(x::int) AND 0x3fff = x mod 16384"
proof -
  have "x AND mask 14 = x mod 2 ^ 14"
    by (simp only: take_bit_eq_mask [symmetric] take_bit_eq_mod)
  then show ?thesis by (simp add: mask_eq_exp_minus_1)
qed

lemma urandom_two: "urandom (Supplies f) 2 = Inr [f 0, f 1]"
  by (simp add: urandom_def upt_rec numeral_2_eq_2)

lemma from_bytes_two:
  "int_from_bytes [a, b] Big kw =
     (if kw = Some True \<and> 32768 \<le> 256 * uint a + uint b
      then 256 * uint a + uint b - 65536 else 256 * uint a + uint b)"
  by (cases kw) (simp_all add: int_from_bytes_def Let_def)

lemma two_bytes_bound:
  "0 \<le> 256 * uint (a::byte) + uint (b::byte) \<and> 256 * uint a + uint b < 65536"
  using uint_bounded [of a] uint_bounded [of b] uint_nonnegative [of a] uint_nonnegative [of b]
  by simp

lemma clockseq_urandom_value:
  "clockseq_urandom (Supplies f) = Inr ((256 * uint (f 0) + uint (f 1)) mod 16384)"
  by (simp add: clockseq_urandom_def urandom_two from_bytes_two and_3fff)

lemma clockseq_urandom_optimized_value:
  "clockseq_urandom_optimized (Supplies f) = Inr ((256 * uint (f 0) + uint (f 1)) mod 16384)"
  by (simp add: clockseq_urandom_optimized_def urandom_two from_bytes_two and_3fff)

lemma clockseq_secrets_value:
  "clockseq_secrets (Supplies f) = Inr ((256 * uint (f 0) + uint (f 1)) div 4)"
  by (simp add: clockseq_secrets_def secrets_randbits_def urandom_two from_bytes_two
      drop_bit_eq_div del: One_nat_def)

lemma current_clock_sequence_value:
  "current_clock_sequence mt = Inr (uint (mt 0) div 262144)"
proof -
  have "uint (drop_bit 18 (mt 0)) = uint (mt 0) div 2 ^ 18"
    by (simp add: drop_bit_eq_div uint_div_distrib)
  then show ?thesis
    by (simp add: current_clock_sequence_def random_getrandbits_def)
qed

lemma generators_unavailable:
  "clockseq_secrets Unavailable = Inl OSError"
  "clockseq_urandom Unavailable = Inl OSError"
  "clockseq_urandom_optimized Unavailable = Inl OSError"
  by (simp_all add: clockseq_secrets_def secrets_randbits_def clockseq_urandom_def
      clockseq_urandom_optimized_def urandom_def)

lemma current_clock_sequence_range:
  "\<exists>v. current_clock_sequence mt = Inr v \<and> 0 \<le> v \<and> v \<le> 16383"
proof -
  have "uint (mt 0) < 2 ^ 32" using uint_bounded [of "mt 0"] by simp
  then have "uint (mt 0) div 262144 \<le> 16383" by simp
  moreover have "0 \<le> uint (mt 0) div 262144" by (simp add: pos_imp_zdiv_nonneg_iff)
  ultimately show ?thesis by (simp add: current_clock_sequence_value)
qed

lemma clockseq_secrets_range:
  "\<exists>v. clockseq_secrets (Supplies f) = Inr v \<and> 0 \<le> v \<and> v \<le> 16383"
proof -
  have "0 \<le> 256 * uint (f 0) + uint (f 1) \<and> 256 * uint (f 0) + uint (f 1) < 65536"
    by (rule two_bytes_bound)
  then have "0 \<le> (256 * uint (f 0) + uint (f 1)) div 4 \<and>
      (256 * uint (f 0) + uint (f 1)) div 4 \<le> 16383"
    by linarith
  then show ?thesis by (simp only: clockseq_secrets_value) simp
qed

lemma clockseq_urandom_range:
  "\<exists>v. clockseq_urandom (Supplies f) = Inr v \<and> 0 \<le> v \<and> v \<le> 16383"
  by (simp only: clockseq_urandom_value) simp

lemma clockseq_urandom_optimized_range:
  "\<exists>v. clockseq_urandom_optimized (Supplies f) = Inr v \<and> 0 \<le> v \<and> v \<le> 16383"
  by (simp only: clockseq_urandom_optimized_value) simp

lemma pair_val_inj: "inj pair_val"
proof (rule injI)
  fix p q :: "byte \<times> byte"
  assume h: "pair_val p = pair_val q"
  have bp: "0 \<le> uint (snd p) \<and> uint (snd p) < 256" using uint_bounded [of "snd p"] by simp
  have bq: "0 \<le> uint (snd q) \<and> uint (snd q) < 256" using uint_bounded [of "snd q"] by simp
  have "(256 * uint (fst p) + uint (snd p)) div 256 = (256 * uint (fst q) + uint (snd q)) div 256"
    and "(256 * uint (fst p) + uint (snd p)) mod 256 = (256 * uint (fst q) + uint (snd q)) mod 256"
    using h unfolding pair_val_def by simp_all
  with bp bq have "uint (fst p) = uint (fst q) \<and> uint (snd p) = uint (snd q)"
    by simp
  then show "p = q" by (simp add: prod_eq_iff word_uint_eq_iff)
qed

lemma pair_val_surj:
  assumes "0 \<le> n" "n < 65536"
  shows "pair_val (word_of_int (n div 256), word_of_int (n mod 256)) = n"
proof -
  have a: "uint (word_of_int (n div 256) :: byte) = n div 256"
    using assms by (simp add: uint_word_of_int take_bit_eq_mod)
  have b: "uint (word_of_int (n mod 256) :: byte) = n mod 256"
    by (simp add: uint_word_of_int take_bit_eq_mod)
  show ?thesis by (simp add: pair_val_def a b)
qed

lemma four_residues:
  assumes "0 \<le> (n::int)" "n < 65536"
  shows "n \<in> {n mod 16384, n mod 16384 + 16384, n mod 16384 + 32768, n mod 16384 + 49152}"
proof -
  define q where "q = n div 16384"
  have n: "n = 16384 * q + n mod 16384" by (simp add: q_def)
  have "0 \<le> q" using assms(1) by (simp add: q_def)
  moreover have "q < 4" using assms(2) by (simp add: q_def)
  ultimately have "q = 0 \<or> q = 1 \<or> q = 2 \<or> q = 3" by linarith
  with n show ?thesis by auto
qed

lemma fibre_image:
  assumes "0 \<le> v" "v \<le> 16383"
  shows "pair_val ` {p. pair_val p mod 16384 = v} = {v, v + 16384, v + 32768, v + 49152}"
proof (rule set_eqI, rule iffI)
  fix n assume "n \<in> pair_val ` {p. pair_val p mod 16384 = v}"
  then obtain p where p: "n = pair_val p" "pair_val p mod 16384 = v" by auto
  have "0 \<le> pair_val p \<and> pair_val p < 65536"
    unfolding pair_val_def by (rule two_bytes_bound)
  then have "pair_val p \<in> {pair_val p mod 16384, pair_val p mod 16384 + 16384,
      pair_val p mod 16384 + 32768, pair_val p mod 16384 + 49152}"
    by (simp only: four_residues)
  with p show "n \<in> {v, v + 16384, v + 32768, v + 49152}" by simp
next
  fix n assume n: "n \<in> {v, v + 16384, v + 32768, v + 49152}"
  have m: "(v + 16384 * k) mod 16384 = v" for k using assms by simp
  from n have "n = v + 16384 * 0 \<or> n = v + 16384 * 1 \<or> n = v + 16384 * 2 \<or> n = v + 16384 * 3"
    by auto
  then have "n mod 16384 = v" using m by metis
  with n assms have r: "0 \<le> n" "n < 65536" "n mod 16384 = v" by auto
  have e: "pair_val (word_of_int (n div 256), word_of_int (n mod 256)) = n"
    using r(1,2) by (rule pair_val_surj)
  then have "n = pair_val (word_of_int (n div 256), word_of_int (n mod 256))" by simp
  moreover have "pair_val (word_of_int (n div 256), word_of_int (n mod 256)) mod 16384 = v"
    using e r(3) by simp
  ultimately show "n \<in> pair_val ` {p. pair_val p mod 16384 = v}"
    by blast
qed

lemma fibre_card:
  assumes "0 \<le> v" "v \<le> 16383"
  shows "card {p. pair_val p mod 16384 = v} = 4"
proof -
  have "card {p. pair_val p mod 16384 = v} = card (pair_val ` {p. pair_val p mod 16384 = v})"
    by (rule card_image [symmetric]) (rule inj_on_subset [OF pair_val_inj], simp)
  also have "\<dots> = card {v, v + 16384, v + 32768, v + 49152}"
    by (simp only: fibre_image [OF assms])
  also have "\<dots> = 4" by simp
  finally show ?thesis .
qed


section \<open>Claims about the generators\<close>

text \<open>
  C1. Each of the four generators, whatever its randomness source supplies, returns an
  integer between 0 and 16383 inclusive. The twister always yields a word; the operating
  system's source yields some byte sequence \<open>f\<close> whenever it is available, and then the
  call returns. (When the source is unavailable the call raises and returns no value, see
  \<open>generators_unavailable\<close>.)
\<close>

theorem generators_in_range:
  "(\<exists>v. current_clock_sequence mt = Inr v \<and> 0 \<le> v \<and> v \<le> 16383) \<and>
   (\<exists>v. clockseq_secrets (Supplies f) = Inr v \<and> 0 \<le> v \<and> v \<le> 16383) \<and>
   (\<exists>v. clockseq_urandom (Supplies f) = Inr v \<and> 0 \<le> v \<and> v \<le> 16383) \<and>
   (\<exists>v. clockseq_urandom_optimized (Supplies f) = Inr v \<and> 0 \<le> v \<and> v \<le> 16383)"
  using current_clock_sequence_range [of mt] clockseq_secrets_range [of f]
    clockseq_urandom_range [of f] clockseq_urandom_optimized_range [of f]
  by blast

text \<open>
  C2. The baseline generator on \<open>os.urandom\<close> and its "optimized" variant are the same
  function of the entropy source: equal results on every supply of bytes, and the same
  exception when the source is unavailable. The explicit \<open>signed=False\<close> is the default of
  \<open>int.from_bytes\<close>, on byte strings of every length.
\<close>

theorem urandom_optimized_identical:
  "clockseq_urandom_optimized src = clockseq_urandom src \<and>
   int_from_bytes bs Big (Some False) = int_from_bytes bs Big None"
proof -
  have "clockseq_urandom_optimized src = clockseq_urandom src"
    by (cases "urandom src 2")
      (simp_all add: clockseq_urandom_optimized_def clockseq_urandom_def int_from_bytes_def Let_def)
  moreover have "int_from_bytes bs Big (Some False) = int_from_bytes bs Big None"
    by (simp add: int_from_bytes_def Let_def)
  ultimately show ?thesis by simp
qed

text \<open>
  C8. On the two entropy bytes \<open>b0\<close>, \<open>b1\<close> the raw-entropy generator returns
  \<open>(256 * b0 + b1) mod 16384\<close>: the big-endian unsigned reading, masked to 14 bits. Every
  value \<open>v\<close> of the range 0 .. 16383 is the image of exactly four pairs of bytes, so the
  uniform distribution on two-byte strings is carried to the uniform distribution on the
  range.
\<close>

theorem clockseq_urandom_big_endian_uniform:
  "clockseq_urandom (Supplies ((!) [b0, b1])) = Inr ((256 * uint b0 + uint b1) mod 16384) \<and>
   (0 \<le> v \<and> v \<le> 16383 \<longrightarrow>
      card {(c0, c1). clockseq_urandom (Supplies ((!) [c0, c1])) = Inr v} = 4)"
proof -
  have eq: "{(c0, c1). clockseq_urandom (Supplies ((!) [c0, c1])) = Inr v} =
      {p. pair_val p mod 16384 = v}"
    by (auto simp add: clockseq_urandom_value pair_val_def)
  have "0 \<le> v \<and> v \<le> 16383 \<longrightarrow> card {p. pair_val p mod 16384 = v} = 4"
    by (simp add: fibre_card)
  then have "0 \<le> v \<and> v \<le> 16383 \<longrightarrow>
      card {(c0, c1). clockseq_urandom (Supplies ((!) [c0, c1])) = Inr v} = 4"
    by (simp only: eq)
  moreover have
    "clockseq_urandom (Supplies ((!) [b0, b1])) = Inr ((256 * uint b0 + uint b1) mod 16384)"
    by (simp add: clockseq_urandom_value)
  ultimately show ?thesis by blast
qed

theorem clockseq_urandom_big_endian_uniform_witness:
  "clockseq_urandom (Supplies ((!) [0x12, 0x34])) = Inr 4660 \<and>
   card {(c0, c1). clockseq_urandom (Supplies ((!) [c0, c1])) = Inr 5} = 4"
  using clockseq_urandom_big_endian_uniform [of "0x12" "0x34" 5] by simp


section \<open>Properties of the arithmetic and of the metrics\<close>

lemma ulp_exponent_at:
  assumes "2 powi e \<le> \<bar>x\<bar>" "\<bar>x\<bar> < 2 powi (e + 1)"
  shows "ulp_exponent x = max e (- 1022) - 52"
proof -
  have pos: "0 < \<bar>x\<bar>" using assms(1) by (smt (verit) zero_less_power_int)
  have a: "(2::real) powr real_of_int e = 2 powi e"
    by (rule powr_real_of_int') simp_all
  have b: "(2::real) powr real_of_int (e + 1) = 2 powi (e + 1)"
    by (rule powr_real_of_int') simp_all
  have "2 powr real_of_int e \<le> \<bar>x\<bar> \<and> \<bar>x\<bar> < 2 powr real_of_int (e + 1)"
    using assms by (simp only: a b)
  then have "\<lfloor>log 2 \<bar>x\<bar>\<rfloor> = e"
    using pos by (subst floor_log_eq_powr_iff) simp_all
  then show ?thesis by (simp add: ulp_exponent_def)
qed

lemma round_double_at:
  assumes "2 powi e \<le> \<bar>x\<bar>" "\<bar>x\<bar> < 2 powi (e + 1)"
  shows "round_double x =
     of_int (round_half_even (x / 2 powi (max e (- 1022) - 52))) * 2 powi (max e (- 1022) - 52)"
proof -
  have "x \<noteq> 0" using assms(1) by (smt (verit) zero_less_power_int)
  then show ?thesis by (simp add: round_double_def ulp_exponent_at [OF assms])
qed




lemma double_1e6: "round_double 1000000 = 1000000"
  by (simp add: round_double_at [of 19] round_half_even_def)








lemma calculate_metrics_ok:
  assumes "2 \<le> length ts" "rnd (of_int n) \<noteq> 0" "rnd (sum_list ts / of_nat (length ts)) \<noteq> 0"
  shows "calculate_metrics rnd ts n = Inr
    \<lparr>avg_ns = rnd (rnd (rnd (sum_list ts / of_nat (length ts)) / rnd (of_int n)) * 1000000000),
     stddev_ns = rnd (rnd (rnd (sqrt (variance_exact ts)) / rnd (of_int n)) * 1000000000),
     ops_per_sec = rnd (rnd (of_int n) / rnd (sum_list ts / of_nat (length ts)))\<rparr>"
proof -
  have "ts \<noteq> []" using assms(1) by auto
  with assms show ?thesis
    by (simp add: calculate_metrics_def mean_def stdev_def float_div_def float_mul_def
        float_of_int_def variance_exact_def Let_def)
qed












section \<open>Properties of the runner\<close>

lemma calls_made_eq: "calls_made st = count_calls (events st)"
  by (simp add: calls_made_def count_calls_def)

lemma clock_reads_eq: "clock_reads st = count_ticks (events st)"
  by (simp add: clock_reads_def count_ticks_def)

lemma count_calls_simps [simp]:
  "count_calls [] = 0"
  "count_calls (Call g # es) = Suc (count_calls es)"
  "count_calls (Tick # es) = count_calls es"
  "count_calls (es @ fs) = count_calls es + count_calls fs"
  by (simp_all add: count_calls_def)

lemma count_ticks_simps [simp]:
  "count_ticks [] = 0"
  "count_ticks (Call g # es) = count_ticks es"
  "count_ticks (Tick # es) = Suc (count_ticks es)"
  "count_ticks (es @ fs) = count_ticks es + count_ticks fs"
  by (simp_all add: count_ticks_def)

lemma count_map_Call [simp]:
  "count_calls (map Call gs) = length gs" "count_ticks (map Call gs) = 0"
  by (induction gs) simp_all

lemma count_replicate_Call [simp]:
  "count_calls (replicate n (Call g)) = n" "count_ticks (replicate n (Call g)) = 0"
  by (induction n) simp_all

lemma count_batch_events [simp]:
  "count_calls (batch_events n g) = n" "count_ticks (batch_events n g) = 2"
  by (simp_all add: batch_events_def)

lemma count_batches_events [simp]:
  "count_calls (batches_events r n g) = r * n" "count_ticks (batches_events r n g) = 2 * r"
  by (induction r) (simp_all add: batches_events_def)

lemma length_warmup_calls [simp]: "length (warmup_calls w) = 4 * w"
  by (induction w) (simp_all add: warmup_calls_def)

lemma first_error_append:
  "first_error pf t (xs @ ys) =
     (case first_error pf t xs of Some e \<Rightarrow> Some e | None \<Rightarrow> first_error pf (t + length xs) ys)"
proof (induction xs arbitrary: t)
  case Nil
  show ?case by simp
next
  case (Cons a xs)
  show ?case
    by (cases "run_generator pf t a") (simp_all add: Cons cong: option.case_cong)
qed

lemma call_all_eq:
  "call_all pf gs st =
     (case first_error pf (calls_made st) gs of
        Some e \<Rightarrow> Inl e
      | None \<Rightarrow> Inr (st\<lparr>events := events st @ map Call gs\<rparr>))"
proof (induction gs arbitrary: st)
  case Nil
  show ?case by simp
next
  case (Cons g gs)
  show ?case
  proof (cases "run_generator pf (calls_made st) g")
    case (Inl e)
    then show ?thesis by (simp add: call_generator_def)
  next
    case (Inr v)
    have c: "calls_made (st\<lparr>events := events st @ [Call g]\<rparr>) = Suc (calls_made st)"
      by (simp add: calls_made_eq)
    show ?thesis
      by (simp add: call_generator_def Inr Cons c cong: option.case_cong)
  qed
qed

lemma call_all_append:
  "call_all pf (xs @ ys) st =
     (case call_all pf xs st of Inl e \<Rightarrow> Inl e | Inr st' \<Rightarrow> call_all pf ys st')"
proof (induction xs arbitrary: st)
  case Nil
  show ?case by simp
next
  case (Cons a xs)
  show ?case by (cases "call_generator pf a st") (simp_all add: Cons)
qed

lemma warmup_round_call_all: "warmup_round pf st = call_all pf (warmup_calls 1) st"
  by (simp add: warmup_round_def warmup_calls_def split: sum.splits)

lemma warmup_calls_Suc: "warmup_calls (Suc w) = warmup_calls 1 @ warmup_calls w"
  by (simp add: warmup_calls_def)

lemma warmup_loop_call_all: "warmup_loop pf w st = call_all pf (warmup_calls w) st"
proof (induction w arbitrary: st)
  case 0
  show ?case by (simp add: warmup_calls_def)
next
  case (Suc w)
  show ?case
    by (simp only: warmup_loop.simps warmup_round_call_all warmup_calls_Suc call_all_append Suc)
qed

lemma inner_loop_call_all: "inner_loop pf g n st = call_all pf (replicate n g) st"
  by (induction n arbitrary: st) (simp_all cong: sum.case_cong)

lemma warmup_loop_eq:
  "warmup_loop pf w st =
     (case first_error pf (calls_made st) (warmup_calls w) of
        Some e \<Rightarrow> Inl e
      | None \<Rightarrow> Inr (st\<lparr>events := events st @ map Call (warmup_calls w)\<rparr>))"
  by (simp only: warmup_loop_call_all call_all_eq)

lemma inner_loop_eq:
  "inner_loop pf g n st =
     (case first_error pf (calls_made st) (replicate n g) of
        Some e \<Rightarrow> Inl e
      | None \<Rightarrow> Inr (st\<lparr>events := events st @ replicate n (Call g)\<rparr>))"
  by (simp add: inner_loop_call_all call_all_eq cong: option.case_cong)

lemma timeit_eq:
  "timeit pf g number st =
     (case first_error pf (calls_made st) (replicate (nat number) g) of
        Some e \<Rightarrow> Inl e
      | None \<Rightarrow> Inr (round_double (perf_counter pf (clock_reads st + 1) - perf_counter pf (clock_reads st)),
                     st\<lparr>events := events st @ batch_events (nat number) g\<rparr>))"
proof (cases "first_error pf (calls_made st) (replicate (nat number) g)")
  case None
  then show ?thesis
    by (simp add: timeit_def read_clock_def inner_loop_eq calls_made_eq clock_reads_eq
        batch_events_def)
next
  case (Some e)
  then show ?thesis
    by (simp add: timeit_def read_clock_def inner_loop_eq calls_made_eq clock_reads_eq)
qed

lemma batch_times_Suc:
  "batch_times pf c (Suc k) =
     round_double (perf_counter pf (c + 1) - perf_counter pf c) # batch_times pf (c + 2) k"
proof -
  have "[0..<Suc k] = 0 # map Suc [0..<k]"
    by (simp add: upt_conv_Cons map_Suc_upt del: upt_Suc)
  then show ?thesis by (simp add: batch_times_def o_def del: upt_Suc)
qed

lemma replicate_Suc_mult: "replicate (Suc k * n) g = replicate n g @ replicate (k * n) g"
  by (simp add: replicate_add)

lemma batches_events_Suc:
  "batches_events (Suc k) n g = batch_events n g @ batches_events k n g"
  by (simp add: batches_events_def)

lemma repeat_loop_eq:
  "repeat_loop pf g k number r st =
     (case first_error pf (calls_made st) (replicate (k * nat number) g) of
        Some e \<Rightarrow> Inl e
      | None \<Rightarrow> Inr (r @ batch_times pf (clock_reads st) k,
                     st\<lparr>events := events st @ batches_events k (nat number) g\<rparr>))"
proof (induction k arbitrary: r st)
  case 0
  show ?case by (simp add: batch_times_def batches_events_def)
next
  case (Suc k)
  let ?n = "nat number"
  let ?st' = "st\<lparr>events := events st @ batch_events ?n g\<rparr>"
  show ?case
  proof (cases "first_error pf (calls_made st) (replicate ?n g)")
    case (Some e)
    then show ?thesis
      by (simp only: repeat_loop.simps timeit_eq replicate_Suc_mult first_error_append) simp
  next
    case None
    have c: "calls_made ?st' = calls_made st + length (replicate ?n g)"
      by (simp add: calls_made_eq)
    have t: "clock_reads ?st' = clock_reads st + 2"
      by (simp add: clock_reads_eq)
    have step: "repeat_loop pf g (Suc k) number r st =
        repeat_loop pf g k number
          (r @ [round_double (perf_counter pf (clock_reads st + 1) - perf_counter pf (clock_reads st))]) ?st'"
      by (simp only: repeat_loop.simps timeit_eq None) simp
    show ?thesis
    proof (cases "first_error pf (calls_made st + length (replicate ?n g)) (replicate (k * ?n) g)")
      case (Some e)
      then show ?thesis
        by (simp only: step Suc c t replicate_Suc_mult first_error_append None) simp
    next
      case None2: None
      then show ?thesis
        by (simp only: step Suc c t replicate_Suc_mult first_error_append None
            batch_times_Suc batches_events_Suc) simp
    qed
  qed
qed

lemma timer_repeat_eq:
  "timer_repeat pf g repeat number st =
     (case first_error pf (calls_made st) (replicate (nat repeat * nat number) g) of
        Some e \<Rightarrow> Inl e
      | None \<Rightarrow> Inr (batch_times pf (clock_reads st) (nat repeat),
                     st\<lparr>events := events st @ batches_events (nat repeat) (nat number) g\<rparr>))"
  by (simp add: timer_repeat_def repeat_loop_eq cong: option.case_cong)


lemma print_line_simps [simp]:
  "events (print_line l st) = events st"
  "stdout (print_line l st) = stdout st @ [l]"
  "calls_made (print_line l st) = calls_made st"
  "clock_reads (print_line l st) = clock_reads st"
  by (simp_all add: print_line_def calls_made_def clock_reads_def)

lemma stdout_update_simps [simp]:
  "calls_made (st\<lparr>stdout := ls\<rparr>) = calls_made st"
  "clock_reads (st\<lparr>stdout := ls\<rparr>) = clock_reads st"
  "calls_made initial_state = 0"
  "clock_reads initial_state = 0"
  by (simp_all add: calls_made_def clock_reads_def initial_state_def)

lemma benchmark_case_eq:
  "benchmark_case cfg pf (name, g) (results, st) =
     (case first_error pf (calls_made st)
             (replicate (nat (repeat_count cfg) * nat (num_iterations cfg)) g) of
        Some e \<Rightarrow> Inl e
      | None \<Rightarrow>
          (case calculate_metrics round_double
                  (batch_times pf (clock_reads st) (nat (repeat_count cfg))) (num_iterations cfg) of
             Inl e \<Rightarrow> Inl e
           | Inr m \<Rightarrow>
               Inr (AList.update name m results,
                    \<lparr>events = events st @
                       batches_events (nat (repeat_count cfg)) (nat (num_iterations cfg)) g,
                     stdout = stdout st @ case_lines (name, m)\<rparr>)))"
proof (cases "first_error pf (calls_made st)
    (replicate (nat (repeat_count cfg) * nat (num_iterations cfg)) g)")
  case (Some e)
  then show ?thesis by (simp add: benchmark_case_def timer_repeat_eq Let_def)
next
  case None
  show ?thesis
  proof (cases "calculate_metrics round_double
      (batch_times pf (clock_reads st) (nat (repeat_count cfg))) (num_iterations cfg)")
    case (Inl e)
    then show ?thesis using None by (simp add: benchmark_case_def timer_repeat_eq Let_def)
  next
    case (Inr m)
    then show ?thesis using None
      by (simp add: benchmark_case_def timer_repeat_eq case_lines_def Let_def print_line_def)
  qed
qed

lemma print_table_eq:
  "print_table results st = st\<lparr>stdout := stdout st @ map table_row (sorted_items results)\<rparr>"
proof -
  have "foldl (\<lambda>s x. print_line (table_row x) s) st xs = st\<lparr>stdout := stdout st @ map table_row xs\<rparr>"
    for xs
    by (induction xs arbitrary: st) (simp_all add: print_line_def)
  then show ?thesis by (simp add: print_table_def)
qed

lemma benchmark_loop_eq:
  "benchmark_loop cfg pf tcs (results, st) =
     (case measure_all cfg pf (calls_made st) (clock_reads st) tcs of
        Inl e \<Rightarrow> Inl e
      | Inr ms \<Rightarrow>
          Inr (update_all results ms,
               \<lparr>events = events st @ cases_events cfg tcs,
                stdout = stdout st @ concat (map case_lines ms)\<rparr>))"
proof (induction tcs arbitrary: results st)
  case Nil
  show ?case by (simp add: update_all_def cases_events_def)
next
  case (Cons tc tcs)
  obtain name g where tc: "tc = (name, g)" by (cases tc)
  let ?r = "nat (repeat_count cfg)"
  let ?n = "nat (num_iterations cfg)"
  show ?case
  proof (cases "first_error pf (calls_made st) (replicate (?r * ?n) g)")
    case (Some e)
    then show ?thesis by (simp add: tc benchmark_case_eq)
  next
    case None
    show ?thesis
    proof (cases "calculate_metrics round_double (batch_times pf (clock_reads st) ?r)
        (num_iterations cfg)")
      case (Inl e)
      then show ?thesis using None by (simp add: tc benchmark_case_eq)
    next
      case (Inr m)
      let ?st' = "\<lparr>events = events st @ batches_events ?r ?n g,
                  stdout = stdout st @ case_lines (name, m)\<rparr>"
      have c: "calls_made ?st' = calls_made st + ?r * ?n"
        by (simp add: calls_made_eq)
      have t: "clock_reads ?st' = clock_reads st + 2 * ?r"
        by (simp add: clock_reads_eq)
      have step: "benchmark_loop cfg pf (tc # tcs) (results, st) =
          benchmark_loop cfg pf tcs (AList.update name m results, ?st')"
        using None Inr by (simp add: tc benchmark_case_eq)
      show ?thesis
      proof (cases "measure_all cfg pf (calls_made st + ?r * ?n) (clock_reads st + 2 * ?r) tcs")
        case Inl2: (Inl e)
        show ?thesis
          by (simp only: step Cons c t) (simp add: tc None Inr Inl2)
      next
        case Inr2: (Inr ms)
        show ?thesis
          by (simp only: step Cons c t)
            (simp add: tc None Inr Inr2 update_all_def cases_events_def)
      qed
    qed
  qed
qed

lemma run_benchmark_with_eq:
  "run_benchmark_with cfg pf =
     (case first_error pf 0 (warmup_calls (nat (warmup_rounds cfg))) of
        Some e \<Rightarrow> Inl e
      | None \<Rightarrow>
          (case measure_all cfg pf (4 * nat (warmup_rounds cfg)) 0 (test_cases cfg) of
             Inl e \<Rightarrow> Inl e
           | Inr ms \<Rightarrow>
               Inr \<lparr>events = map Call (warmup_calls (nat (warmup_rounds cfg))) @
                       cases_events cfg (test_cases cfg),
                    stdout = program_output (version pf) (num_iterations cfg) ms\<rparr>))"
proof -
  let ?w = "nat (warmup_rounds cfg)"
  let ?st2 = "print_line RunningWarmup
      (print_line (BenchmarkingIterations (num_iterations cfg))
        (print_line (PythonVersion (version pf)) initial_state))"
  have c2: "calls_made ?st2 = 0" by (simp add: initial_state_def calls_made_def)
  show ?thesis
  proof (cases "first_error pf 0 (warmup_calls ?w)")
    case (Some e)
    then show ?thesis
      by (simp add: run_benchmark_with_def Let_def warmup_loop_eq c2)
  next
    case None
    let ?st3 = "?st2\<lparr>events := events ?st2 @ map Call (warmup_calls ?w)\<rparr>"
    have w: "warmup_loop pf ?w ?st2 = Inr ?st3"
      using None by (simp add: warmup_loop_eq c2)
    have c3: "calls_made ?st3 = 4 * ?w" by (simp add: calls_made_eq initial_state_def)
    have t3: "clock_reads ?st3 = 0" by (simp add: clock_reads_eq initial_state_def)
    have e3: "events ?st3 = map Call (warmup_calls ?w)" by (simp add: initial_state_def)
    have o3: "stdout ?st3 = [PythonVersion (version pf),
        BenchmarkingIterations (num_iterations cfg), RunningWarmup]"
      by (simp add: initial_state_def)
    show ?thesis
    proof (cases "measure_all cfg pf (4 * ?w) 0 (test_cases cfg)")
      case (Inl e)
      then show ?thesis using None
        by (simp add: run_benchmark_with_def Let_def w benchmark_loop_eq c3 t3 del: print_line_simps)
    next
      case (Inr ms)
      then show ?thesis using None
        by (simp add: run_benchmark_with_def Let_def w benchmark_loop_eq c3 t3 e3 o3
            print_table_eq program_output_def del: print_line_simps)
          (simp add: print_line_def)
    qed
  qed
qed

lemma run_generator_cases:
  "run_generator pf t g = Inl e \<Longrightarrow> e = OSError"
proof (cases g)
  case CurrentClockSequence
  assume "run_generator pf t g = Inl e"
  then show ?thesis
    by (simp add: run_generator_def CurrentClockSequence current_clock_sequence_value)
next
  case ClockseqSecrets
  assume "run_generator pf t g = Inl e"
  then show ?thesis
    by (cases "os_source pf t")
      (simp_all add: run_generator_def ClockseqSecrets clockseq_secrets_value generators_unavailable)
next
  case ClockseqUrandom
  assume "run_generator pf t g = Inl e"
  then show ?thesis
    by (cases "os_source pf t")
      (simp_all add: run_generator_def ClockseqUrandom clockseq_urandom_value generators_unavailable)
next
  case ClockseqUrandomOptimized
  assume "run_generator pf t g = Inl e"
  then show ?thesis
    by (cases "os_source pf t")
      (simp_all add: run_generator_def ClockseqUrandomOptimized clockseq_urandom_optimized_value
        generators_unavailable)
qed

lemma run_generator_available:
  assumes "os_source pf t \<noteq> Unavailable"
  shows "\<exists>v. run_generator pf t g = Inr v"
proof -
  obtain f where f: "os_source pf t = Supplies f" using assms by (cases "os_source pf t") auto
  show ?thesis
    by (cases g)
      (simp_all add: run_generator_def f current_clock_sequence_value clockseq_secrets_value
        clockseq_urandom_value clockseq_urandom_optimized_value)
qed

lemma first_error_OSError: "first_error pf t gs = Some e \<Longrightarrow> e = OSError"
proof (induction gs arbitrary: t)
  case Nil
  then show ?case by simp
next
  case (Cons g gs)
  show ?case
  proof (cases "run_generator pf t g")
    case (Inl e')
    with Cons.prems have "e' = e" by simp
    with Inl show ?thesis using run_generator_cases by blast
  next
    case (Inr v)
    with Cons.prems have "first_error pf (Suc t) gs = Some e" by simp
    then show ?thesis by (rule Cons.IH)
  qed
qed

lemma first_error_available:
  assumes "\<And>t. os_source pf t \<noteq> Unavailable"
  shows "first_error pf t gs = None"
proof (induction gs arbitrary: t)
  case Nil
  show ?case by simp
next
  case (Cons g gs)
  obtain v where "run_generator pf t g = Inr v"
    using run_generator_available [OF assms] by blast
  then show ?case by (simp add: Cons)
qed

lemma calculate_metrics_error:
  assumes "calculate_metrics rnd ts n = Inl e"
  shows "(e = StatisticsError \<and> length ts < 2) \<or> e = ZeroDivisionError"
  using assms
  by (auto simp add: calculate_metrics_def mean_def stdev_def float_div_def Let_def
      split: if_splits sum.splits)

lemma length_batch_times [simp]: "length (batch_times pf c r) = r"
  by (simp add: batch_times_def)

lemma measure_all_error:
  assumes "measure_all cfg pf t c tcs = Inl e" "2 \<le> nat (repeat_count cfg)"
  shows "e = OSError \<or> e = ZeroDivisionError"
  using assms(1)
proof (induction tcs arbitrary: t c)
  case Nil
  then show ?case by simp
next
  case (Cons tc tcs)
  let ?r = "nat (repeat_count cfg)"
  let ?n = "nat (num_iterations cfg)"
  show ?case
  proof (cases "first_error pf t (replicate (?r * ?n) (snd tc))")
    case (Some e')
    with Cons.prems have "e' = e" by simp
    with Some show ?thesis using first_error_OSError by blast
  next
    case None
    show ?thesis
    proof (cases "calculate_metrics round_double (batch_times pf c ?r) (num_iterations cfg)")
      case (Inl e')
      with None Cons.prems have "e' = e" by simp
      with Inl have "calculate_metrics round_double (batch_times pf c ?r) (num_iterations cfg) = Inl e"
        by simp
      from calculate_metrics_error [OF this] assms(2) show ?thesis by simp
    next
      case (Inr m)
      with None Cons.prems have "measure_all cfg pf (t + ?r * ?n) (c + 2 * ?r) tcs = Inl e"
        by (simp split: sum.splits)
      then show ?thesis by (rule Cons.IH)
    qed
  qed
qed

lemma update_all_module_results:
  "update_all [] (module_results m0 m1 m2 m3) = module_results m0 m1 m2 m3"
  by (simp add: update_all_def module_results_def TEST_CASES_def)

lemma cases_events_TEST_CASES:
  "map Call (warmup_calls w) @ cases_events cfg TEST_CASES =
     program_events w (nat (repeat_count cfg)) (nat (num_iterations cfg))"
  by (simp add: cases_events_def TEST_CASES_def program_events_def)

lemma first_error_program_calls:
  "first_error pf 0 (program_calls w r n) = None \<longleftrightarrow>
     first_error pf 0 (warmup_calls w) = None \<and>
     first_error pf (4 * w) (replicate (r * n) CurrentClockSequence) = None \<and>
     first_error pf (4 * w + r * n) (replicate (r * n) ClockseqSecrets) = None \<and>
     first_error pf (4 * w + r * n + r * n) (replicate (r * n) ClockseqUrandom) = None \<and>
     first_error pf (4 * w + r * n + r * n + r * n) (replicate (r * n) ClockseqUrandomOptimized) = None"
  by (simp add: program_calls_def first_error_append split: option.splits)

lemma measure_all_TEST_CASES:
  "measure_all cfg pf t c TEST_CASES = Inr ms \<longleftrightarrow>
     first_error pf t
       (replicate (nat (repeat_count cfg) * nat (num_iterations cfg)) CurrentClockSequence) = None \<and>
     first_error pf (t + nat (repeat_count cfg) * nat (num_iterations cfg))
       (replicate (nat (repeat_count cfg) * nat (num_iterations cfg)) ClockseqSecrets) = None \<and>
     first_error pf (t + nat (repeat_count cfg) * nat (num_iterations cfg) +
         nat (repeat_count cfg) * nat (num_iterations cfg))
       (replicate (nat (repeat_count cfg) * nat (num_iterations cfg)) ClockseqUrandom) = None \<and>
     first_error pf (t + nat (repeat_count cfg) * nat (num_iterations cfg) +
         nat (repeat_count cfg) * nat (num_iterations cfg) +
         nat (repeat_count cfg) * nat (num_iterations cfg))
       (replicate (nat (repeat_count cfg) * nat (num_iterations cfg)) ClockseqUrandomOptimized) = None \<and>
     (\<exists>m0 m1 m2 m3.
        calculate_metrics round_double (batch_times pf c (nat (repeat_count cfg)))
          (num_iterations cfg) = Inr m0 \<and>
        calculate_metrics round_double
          (batch_times pf (c + 2 * nat (repeat_count cfg)) (nat (repeat_count cfg)))
          (num_iterations cfg) = Inr m1 \<and>
        calculate_metrics round_double
          (batch_times pf (c + 2 * nat (repeat_count cfg) + 2 * nat (repeat_count cfg))
            (nat (repeat_count cfg)))
          (num_iterations cfg) = Inr m2 \<and>
        calculate_metrics round_double
          (batch_times pf (c + 2 * nat (repeat_count cfg) + 2 * nat (repeat_count cfg) +
            2 * nat (repeat_count cfg)) (nat (repeat_count cfg)))
          (num_iterations cfg) = Inr m3 \<and>
        ms = module_results m0 m1 m2 m3)"
  unfolding TEST_CASES_def module_results_def measure_all.simps
  by (auto split: option.splits sum.splits)


lemma count_list_replicate_eq: "count_list (replicate n x) a = (if x = a then n else 0)"
  by (induction n) auto

lemma count_list_batch_events:
  "count_list (batch_events n g) (Call h) = (if g = h then n else 0)"
  by (simp add: batch_events_def count_list_replicate_eq)

lemma count_list_batches_events:
  "count_list (batches_events r n g) (Call h) = (if g = h then r * n else 0)"
  by (induction r) (simp_all add: batches_events_def count_list_batch_events)

lemma count_list_warmup: "count_list (map Call (warmup_calls w)) (Call g) = w"
  by (induction w) (cases g; simp add: warmup_calls_def)+

lemma count_list_program_events:
  "count_list (program_events w r n) (Call g) = w + r * n"
  by (cases g) (simp_all add: program_events_def count_list_warmup count_list_batches_events)

lemma count_program_events:
  "count_calls (program_events w r n) = 4 * w + 4 * (r * n)"
  "count_ticks (program_events w r n) = 8 * r"
  by (simp_all add: program_events_def)

lemma run_benchmark_with_Inr:
  assumes "test_cases cfg = TEST_CASES"
  shows "run_benchmark_with cfg pf = Inr st \<longleftrightarrow>
     first_error pf 0
       (program_calls (nat (warmup_rounds cfg)) (nat (repeat_count cfg)) (nat (num_iterations cfg))) =
       None \<and>
     (\<exists>m0 m1 m2 m3.
        calculate_metrics round_double (batch_times pf 0 (nat (repeat_count cfg)))
          (num_iterations cfg) = Inr m0 \<and>
        calculate_metrics round_double
          (batch_times pf (2 * nat (repeat_count cfg)) (nat (repeat_count cfg)))
          (num_iterations cfg) = Inr m1 \<and>
        calculate_metrics round_double
          (batch_times pf (2 * nat (repeat_count cfg) + 2 * nat (repeat_count cfg))
            (nat (repeat_count cfg)))
          (num_iterations cfg) = Inr m2 \<and>
        calculate_metrics round_double
          (batch_times pf (2 * nat (repeat_count cfg) + 2 * nat (repeat_count cfg) +
            2 * nat (repeat_count cfg)) (nat (repeat_count cfg)))
          (num_iterations cfg) = Inr m3 \<and>
        st = \<lparr>events = program_events (nat (warmup_rounds cfg)) (nat (repeat_count cfg))
                 (nat (num_iterations cfg)),
              stdout = program_output (version pf) (num_iterations cfg)
                 (module_results m0 m1 m2 m3)\<rparr>)"
proof (cases "first_error pf 0 (warmup_calls (nat (warmup_rounds cfg)))")
  case (Some e)
  then show ?thesis
    by (simp add: run_benchmark_with_eq first_error_program_calls)
next
  case None
  let ?w = "nat (warmup_rounds cfg)"
  show ?thesis
  proof (cases "measure_all cfg pf (4 * ?w) 0 TEST_CASES")
    case (Inl e)
    have "\<not> (\<exists>ms. measure_all cfg pf (4 * ?w) 0 TEST_CASES = Inr ms)" using Inl by simp
    then have no: "\<not> (first_error pf 0 (program_calls ?w (nat (repeat_count cfg))
          (nat (num_iterations cfg))) = None \<and>
        (\<exists>m0 m1 m2 m3.
          calculate_metrics round_double (batch_times pf 0 (nat (repeat_count cfg)))
            (num_iterations cfg) = Inr m0 \<and>
          calculate_metrics round_double
            (batch_times pf (2 * nat (repeat_count cfg)) (nat (repeat_count cfg)))
            (num_iterations cfg) = Inr m1 \<and>
          calculate_metrics round_double
            (batch_times pf (2 * nat (repeat_count cfg) + 2 * nat (repeat_count cfg))
              (nat (repeat_count cfg)))
            (num_iterations cfg) = Inr m2 \<and>
          calculate_metrics round_double
            (batch_times pf (2 * nat (repeat_count cfg) + 2 * nat (repeat_count cfg) +
              2 * nat (repeat_count cfg)) (nat (repeat_count cfg)))
            (num_iterations cfg) = Inr m3))"
      by (simp add: measure_all_TEST_CASES first_error_program_calls None) blast
    have "run_benchmark_with cfg pf = Inl e"
      by (simp add: run_benchmark_with_eq None assms Inl)
    with no show ?thesis by auto
  next
    case (Inr ms)
    from Inr obtain m0 m1 m2 m3 where
      ms: "ms = module_results m0 m1 m2 m3" and
      fe: "first_error pf 0 (program_calls ?w (nat (repeat_count cfg))
          (nat (num_iterations cfg))) = None" and
      c0: "calculate_metrics round_double (batch_times pf 0 (nat (repeat_count cfg)))
            (num_iterations cfg) = Inr m0" and
      c1: "calculate_metrics round_double
            (batch_times pf (2 * nat (repeat_count cfg)) (nat (repeat_count cfg)))
            (num_iterations cfg) = Inr m1" and
      c2: "calculate_metrics round_double
            (batch_times pf (2 * nat (repeat_count cfg) + 2 * nat (repeat_count cfg))
              (nat (repeat_count cfg)))
            (num_iterations cfg) = Inr m2" and
      c3: "calculate_metrics round_double
            (batch_times pf (2 * nat (repeat_count cfg) + 2 * nat (repeat_count cfg) +
              2 * nat (repeat_count cfg)) (nat (repeat_count cfg)))
            (num_iterations cfg) = Inr m3"
      by (auto simp add: measure_all_TEST_CASES first_error_program_calls None)
    have run: "run_benchmark_with cfg pf =
        Inr \<lparr>events = program_events ?w (nat (repeat_count cfg)) (nat (num_iterations cfg)),
             stdout = program_output (version pf) (num_iterations cfg)
               (module_results m0 m1 m2 m3)\<rparr>"
      by (simp add: run_benchmark_with_eq None assms Inr ms cases_events_TEST_CASES [symmetric])
    show ?thesis
      using fe c0 c1 c2 c3 by (auto simp add: run)
  qed
qed

lemma module_config_simps [simp]:
  "test_cases module_config = TEST_CASES"
  "nat (warmup_rounds module_config) = 100"
  "nat (repeat_count module_config) = 5"
  "nat (num_iterations module_config) = 1000000"
  "num_iterations module_config = 1000000"
  by (simp_all add: module_config_def NUM_ITERATIONS_def WARMUP_ROUNDS_def)

lemma run_benchmark_Inr:
  "run_benchmark pf = Inr st \<longleftrightarrow>
     first_error pf 0 (program_calls 100 5 1000000) = None \<and>
     (\<exists>m0 m1 m2 m3.
        calculate_metrics round_double (batch_times pf 0 5) 1000000 = Inr m0 \<and>
        calculate_metrics round_double (batch_times pf 10 5) 1000000 = Inr m1 \<and>
        calculate_metrics round_double (batch_times pf 20 5) 1000000 = Inr m2 \<and>
        calculate_metrics round_double (batch_times pf 30 5) 1000000 = Inr m3 \<and>
        st = \<lparr>events = program_events 100 5 1000000,
              stdout = program_output (version pf) 1000000 (module_results m0 m1 m2 m3)\<rparr>)"
  unfolding run_benchmark_def
  by (subst run_benchmark_with_Inr) simp_all

lemma double_one: "round_double 1 = 1"
  by (simp add: round_double_at [of 0] round_half_even_def)




lemma steady_first_error [simp]: "first_error steady_platform t gs = None"
  by (rule first_error_available) (simp add: steady_platform_def)

lemma steady_batch_times [simp]: "batch_times steady_platform c 5 = [1, 1, 1, 1, 1]"
proof -
  have "[0..<5] = [0, 1, 2, 3, 4]" by (simp add: upt_rec)
  then show ?thesis by (simp add: batch_times_def steady_platform_def double_one)
qed


lemma steady_metrics:
  "\<exists>m. calculate_metrics round_double [1, 1, 1, 1, 1] 1000000 = Inr m"
proof -
  have "calculate_metrics round_double [1, 1, 1, 1, 1] 1000000 = Inr
    \<lparr>avg_ns = round_double (round_double (round_double (sum_list [1, 1, 1, 1, 1] /
        of_nat (length [1, 1, 1, 1, 1 :: real])) / round_double (of_int 1000000)) * 1000000000),
     stddev_ns = round_double (round_double (round_double (sqrt (variance_exact [1, 1, 1, 1, 1])) /
        round_double (of_int 1000000)) * 1000000000),
     ops_per_sec = round_double (round_double (of_int 1000000) /
        round_double (sum_list [1, 1, 1, 1, 1] / of_nat (length [1, 1, 1, 1, 1 :: real])))\<rparr>"
    by (rule calculate_metrics_ok) (simp_all add: double_one double_1e6)
  then show ?thesis by blast
qed


lemma steady_run: "\<exists>st. run_benchmark steady_platform = Inr st"
proof -
  obtain m where "calculate_metrics round_double [1, 1, 1, 1, 1] 1000000 = Inr m"
    using steady_metrics by blast
  then show ?thesis by (simp add: run_benchmark_Inr)
qed


lemma starved_warmup: "first_error starved_platform 0 (warmup_calls (Suc w)) = Some OSError"
  by (simp add: warmup_calls_def starved_platform_def steady_platform_def run_generator_def
      current_clock_sequence_value generators_unavailable)

lemma run_benchmark_eq:
  "run_benchmark pf =
     (case first_error pf 0 (warmup_calls 100) of
        Some e \<Rightarrow> Inl e
      | None \<Rightarrow>
          (case measure_all module_config pf 400 0 TEST_CASES of
             Inl e \<Rightarrow> Inl e
           | Inr ms \<Rightarrow>
               Inr \<lparr>events = program_events 100 5 1000000,
                    stdout = program_output (version pf) 1000000 ms\<rparr>))"
proof (cases "first_error pf 0 (warmup_calls 100)")
  case (Some e)
  then show ?thesis by (simp add: run_benchmark_def run_benchmark_with_eq)
next
  case None
  have ce: "map Call (warmup_calls 100) @ cases_events module_config TEST_CASES =
      program_events 100 5 1000000"
    using cases_events_TEST_CASES [of 100 module_config] by simp
  from None show ?thesis
    by (cases "measure_all module_config pf 400 0 TEST_CASES")
      (simp_all add: run_benchmark_def run_benchmark_with_eq ce)
qed

text \<open>
  C5. In every complete run the events are: the 100 warmup rounds, four invocations each
  and no clock reading among them; then, for each generator in turn, five batches, each a
  clock reading, 1,000,000 invocations of the generator and a second clock reading. So each
  generator is invoked \<open>100 + 5 * 1,000,000\<close> times, there are
  \<open>100 * 4 + 5 * 1,000,000 * 4\<close> invocations in all, and the metrics printed for the
  generators are those of the batch totals, which are differences of the clock readings
  that enclose the measured batches.
\<close>

theorem warmup_not_measured:
  "run_benchmark pf = Inr st \<longrightarrow>
     events st =
       map Call (warmup_calls (nat WARMUP_ROUNDS)) @
       batches_events 5 (nat NUM_ITERATIONS) CurrentClockSequence @
       batches_events 5 (nat NUM_ITERATIONS) ClockseqSecrets @
       batches_events 5 (nat NUM_ITERATIONS) ClockseqUrandom @
       batches_events 5 (nat NUM_ITERATIONS) ClockseqUrandomOptimized \<and>
     count_ticks (map Call (warmup_calls (nat WARMUP_ROUNDS))) = 0 \<and>
     (\<forall>g. count_list (map Call (warmup_calls (nat WARMUP_ROUNDS))) (Call g) = 100) \<and>
     (\<forall>g. count_list (events st) (Call g) = 100 + 5 * 1000000) \<and>
     count_calls (events st) = nat WARMUP_ROUNDS * 4 + 5 * nat NUM_ITERATIONS * 4 \<and>
     (\<exists>m0 m1 m2 m3.
        calculate_metrics round_double (batch_times pf 0 5) NUM_ITERATIONS = Inr m0 \<and>
        calculate_metrics round_double (batch_times pf 10 5) NUM_ITERATIONS = Inr m1 \<and>
        calculate_metrics round_double (batch_times pf 20 5) NUM_ITERATIONS = Inr m2 \<and>
        calculate_metrics round_double (batch_times pf 30 5) NUM_ITERATIONS = Inr m3 \<and>
        stdout st = program_output (version pf) NUM_ITERATIONS (module_results m0 m1 m2 m3))"
proof
  assume "run_benchmark pf = Inr st"
  then obtain m0 m1 m2 m3 where
    m: "calculate_metrics round_double (batch_times pf 0 5) 1000000 = Inr m0"
       "calculate_metrics round_double (batch_times pf 10 5) 1000000 = Inr m1"
       "calculate_metrics round_double (batch_times pf 20 5) 1000000 = Inr m2"
       "calculate_metrics round_double (batch_times pf 30 5) 1000000 = Inr m3" and
    st: "st = \<lparr>events = program_events 100 5 1000000,
              stdout = program_output (version pf) 1000000 (module_results m0 m1 m2 m3)\<rparr>"
    by (auto simp add: run_benchmark_Inr)
  have ev: "events st = program_events 100 5 1000000" by (simp add: st)
  have out: "stdout st = program_output (version pf) 1000000 (module_results m0 m1 m2 m3)"
    by (simp add: st)
  have a: "events st =
       map Call (warmup_calls (nat WARMUP_ROUNDS)) @
       batches_events 5 (nat NUM_ITERATIONS) CurrentClockSequence @
       batches_events 5 (nat NUM_ITERATIONS) ClockseqSecrets @
       batches_events 5 (nat NUM_ITERATIONS) ClockseqUrandom @
       batches_events 5 (nat NUM_ITERATIONS) ClockseqUrandomOptimized"
    by (simp add: ev program_events_def WARMUP_ROUNDS_def NUM_ITERATIONS_def)
  have b: "count_ticks (map Call (warmup_calls (nat WARMUP_ROUNDS))) = 0" by simp
  have c: "\<forall>g. count_list (map Call (warmup_calls (nat WARMUP_ROUNDS))) (Call g) = 100"
    by (simp add: count_list_warmup WARMUP_ROUNDS_def)
  have d: "\<forall>g. count_list (events st) (Call g) = 100 + 5 * 1000000"
    by (simp add: ev count_list_program_events)
  have e: "count_calls (events st) = nat WARMUP_ROUNDS * 4 + 5 * nat NUM_ITERATIONS * 4"
    by (simp add: ev count_program_events WARMUP_ROUNDS_def NUM_ITERATIONS_def)
  have f: "\<exists>m0 m1 m2 m3.
        calculate_metrics round_double (batch_times pf 0 5) NUM_ITERATIONS = Inr m0 \<and>
        calculate_metrics round_double (batch_times pf 10 5) NUM_ITERATIONS = Inr m1 \<and>
        calculate_metrics round_double (batch_times pf 20 5) NUM_ITERATIONS = Inr m2 \<and>
        calculate_metrics round_double (batch_times pf 30 5) NUM_ITERATIONS = Inr m3 \<and>
        stdout st = program_output (version pf) NUM_ITERATIONS (module_results m0 m1 m2 m3)"
    using m out unfolding NUM_ITERATIONS_def by blast
  from a b c d e f show "events st =
       map Call (warmup_calls (nat WARMUP_ROUNDS)) @
       batches_events 5 (nat NUM_ITERATIONS) CurrentClockSequence @
       batches_events 5 (nat NUM_ITERATIONS) ClockseqSecrets @
       batches_events 5 (nat NUM_ITERATIONS) ClockseqUrandom @
       batches_events 5 (nat NUM_ITERATIONS) ClockseqUrandomOptimized \<and>
     count_ticks (map Call (warmup_calls (nat WARMUP_ROUNDS))) = 0 \<and>
     (\<forall>g. count_list (map Call (warmup_calls (nat WARMUP_ROUNDS))) (Call g) = 100) \<and>
     (\<forall>g. count_list (events st) (Call g) = 100 + 5 * 1000000) \<and>
     count_calls (events st) = nat WARMUP_ROUNDS * 4 + 5 * nat NUM_ITERATIONS * 4 \<and>
     (\<exists>m0 m1 m2 m3.
        calculate_metrics round_double (batch_times pf 0 5) NUM_ITERATIONS = Inr m0 \<and>
        calculate_metrics round_double (batch_times pf 10 5) NUM_ITERATIONS = Inr m1 \<and>
        calculate_metrics round_double (batch_times pf 20 5) NUM_ITERATIONS = Inr m2 \<and>
        calculate_metrics round_double (batch_times pf 30 5) NUM_ITERATIONS = Inr m3 \<and>
        stdout st = program_output (version pf) NUM_ITERATIONS (module_results m0 m1 m2 m3))"
    by blast
qed

theorem warmup_not_measured_witness:
  "\<exists>st. run_benchmark steady_platform = Inr st \<and>
        count_calls (events st) = 20000400 \<and>
        count_list (events st) (Call ClockseqUrandom) = 5000100 \<and>
        count_ticks (events st) = 40"
proof -
  obtain st where st: "run_benchmark steady_platform = Inr st"
    using steady_run by blast
  from warmup_not_measured [of steady_platform st] st
  have "count_calls (events st) = nat WARMUP_ROUNDS * 4 + 5 * nat NUM_ITERATIONS * 4"
    and "count_list (events st) (Call ClockseqUrandom) = 100 + 5 * 1000000"
    by blast+
  moreover have "count_ticks (events st) = 40"
    using st by (auto simp add: run_benchmark_Inr count_program_events)
  ultimately show ?thesis
    using st by (simp add: WARMUP_ROUNDS_def NUM_ITERATIONS_def)
qed

text \<open>
  C9. The list that \<open>timer.repeat(repeat=5, ...)\<close> returns has five elements, so \<open>stdev\<close>
  (and \<open>mean\<close>) return on it, and no run of the benchmark ends in \<open>StatisticsError\<close>.
\<close>

theorem stdev_never_raises:
  "run_benchmark pf \<noteq> Inl StatisticsError \<and>
   (timer_repeat pf g 5 number st = Inr (ts, st') \<longrightarrow>
      length ts = 5 \<and> (\<exists>s. stdev round_double ts = Inr s) \<and> (\<exists>m. mean round_double ts = Inr m))"
proof
  show "run_benchmark pf \<noteq> Inl StatisticsError"
  proof
    assume h: "run_benchmark pf = Inl StatisticsError"
    show False
    proof (cases "first_error pf 0 (warmup_calls 100)")
      case (Some e)
      with h have "e = StatisticsError" by (simp add: run_benchmark_eq)
      with Some show False using first_error_OSError by blast
    next
      case None
      show False
      proof (cases "measure_all module_config pf 400 0 TEST_CASES")
        case (Inl e)
        with h None have "e = StatisticsError" by (simp add: run_benchmark_eq)
        moreover have "e = OSError \<or> e = ZeroDivisionError"
          using Inl by (rule measure_all_error) simp
        ultimately show False by simp
      next
        case (Inr ms)
        with h None show False by (simp add: run_benchmark_eq)
      qed
    qed
  qed
  show "timer_repeat pf g 5 number st = Inr (ts, st') \<longrightarrow>
      length ts = 5 \<and> (\<exists>s. stdev round_double ts = Inr s) \<and> (\<exists>m. mean round_double ts = Inr m)"
  proof
    assume "timer_repeat pf g 5 number st = Inr (ts, st')"
    then have "ts = batch_times pf (clock_reads st) 5"
      by (simp add: timer_repeat_eq split: option.splits)
    then have "length ts = 5" by simp
    then show "length ts = 5 \<and> (\<exists>s. stdev round_double ts = Inr s) \<and>
        (\<exists>m. mean round_double ts = Inr m)"
      by (simp add: stdev_def mean_def Let_def)
  qed
qed

theorem stdev_never_raises_witness:
  "timer_repeat steady_platform ClockseqUrandom 5 1 initial_state =
     Inr ([1, 1, 1, 1, 1], \<lparr>events = batches_events 5 1 ClockseqUrandom, stdout = []\<rparr>) \<and>
   (\<exists>s. stdev round_double [1, 1, 1, 1, 1] = Inr s)"
proof -
  have t: "timer_repeat steady_platform ClockseqUrandom 5 1 initial_state =
     Inr ([1, 1, 1, 1, 1], \<lparr>events = batches_events 5 1 ClockseqUrandom, stdout = []\<rparr>)"
    by (simp add: timer_repeat_eq initial_state_def clock_reads_def)
  with stdev_never_raises [of steady_platform ClockseqUrandom 1 initial_state
      "[1, 1, 1, 1, 1]" "\<lparr>events = batches_events 5 1 ClockseqUrandom, stdout = []\<rparr>"]
  show ?thesis by blast
qed

lemma exit_status_cases:
  "(exit_status pf = 0 \<longleftrightarrow> (\<exists>st. run_benchmark pf = Inr st)) \<and>
   (exit_status pf = 1 \<longleftrightarrow> (\<exists>e. run_benchmark pf = Inl e))"
  by (cases "run_benchmark pf") (simp_all add: exit_status_def)

lemma first_generator_error:
  assumes fe: "first_error pf 0 (program_calls 100 5 1000000) = Some e"
    and m0: "calculate_metrics round_double (batch_times pf 0 5) 1000000 = Inr m0"
    and m1: "calculate_metrics round_double (batch_times pf 10 5) 1000000 = Inr m1"
    and m2: "calculate_metrics round_double (batch_times pf 20 5) 1000000 = Inr m2"
  shows "run_benchmark pf = Inl e"
proof (cases "first_error pf 0 (warmup_calls 100)")
  case (Some e')
  with fe have "e' = e" by (simp add: program_calls_def first_error_append)
  with Some show ?thesis by (simp add: run_benchmark_eq)
next
  case None
  have "measure_all module_config pf 400 0 TEST_CASES = Inl e"
    using fe None m0 m1 m2
    by (simp add: program_calls_def first_error_append TEST_CASES_def split: option.splits)
  with None show ?thesis by (simp add: run_benchmark_eq)
qed

text \<open>
  C7. Nothing is caught. A run returns normally only if none of its generator invocations
  raised; an exception of the warmup, the first exception of any invocation when the
  statistics do not fail before it, and an exception of the statistics all leave
  \<open>run_benchmark\<close> as they are. In general the outcome is the first exception of the warmup,
  else the first exception of the measured loop, else the final state. The exit status is 0
  exactly when \<open>run_benchmark\<close> returns, and 1 exactly when an exception leaves it.
\<close>

theorem exceptions_propagate:
  "(run_benchmark pf = Inr st \<longrightarrow> first_error pf 0 (program_calls 100 5 1000000) = None) \<and>
   (first_error pf 0 (program_calls 100 5 1000000) = Some e \<longrightarrow>
      (\<exists>e'. run_benchmark pf = Inl e') \<and> exit_status pf = 1) \<and>
   (first_error pf 0 (warmup_calls 100) = Some e \<longrightarrow> run_benchmark pf = Inl e) \<and>
   (first_error pf 0 (program_calls 100 5 1000000) = Some e \<and>
    calculate_metrics round_double (batch_times pf 0 5) 1000000 = Inr m0 \<and>
    calculate_metrics round_double (batch_times pf 10 5) 1000000 = Inr m1 \<and>
    calculate_metrics round_double (batch_times pf 20 5) 1000000 = Inr m2 \<longrightarrow>
      run_benchmark pf = Inl e) \<and>
   (first_error pf 0 (warmup_calls 100) = None \<and>
    first_error pf 400 (replicate (5 * 1000000) CurrentClockSequence) = None \<and>
    calculate_metrics round_double (batch_times pf 0 5) 1000000 = Inl e \<longrightarrow>
      run_benchmark pf = Inl e) \<and>
   run_benchmark pf =
     (case first_error pf 0 (warmup_calls 100) of
        Some e \<Rightarrow> Inl e
      | None \<Rightarrow>
          (case measure_all module_config pf 400 0 TEST_CASES of
             Inl e \<Rightarrow> Inl e
           | Inr ms \<Rightarrow>
               Inr \<lparr>events = program_events 100 5 1000000,
                    stdout = program_output (version pf) 1000000 ms\<rparr>)) \<and>
   (exit_status pf = 0 \<longleftrightarrow> (\<exists>st. run_benchmark pf = Inr st)) \<and>
   (exit_status pf = 1 \<longleftrightarrow> (\<exists>e. run_benchmark pf = Inl e))"
proof (intro conjI)
  show a: "run_benchmark pf = Inr st \<longrightarrow> first_error pf 0 (program_calls 100 5 1000000) = None"
    by (simp add: run_benchmark_Inr)
  show "first_error pf 0 (program_calls 100 5 1000000) = Some e \<longrightarrow>
      (\<exists>e'. run_benchmark pf = Inl e') \<and> exit_status pf = 1"
  proof
    assume h: "first_error pf 0 (program_calls 100 5 1000000) = Some e"
    have "\<exists>e'. run_benchmark pf = Inl e'"
    proof (cases "run_benchmark pf")
      case (Inl e')
      then show ?thesis by blast
    next
      case (Inr st')
      then have "first_error pf 0 (program_calls 100 5 1000000) = None"
        by (simp add: run_benchmark_Inr)
      with h show ?thesis by simp
    qed
    then show "(\<exists>e'. run_benchmark pf = Inl e') \<and> exit_status pf = 1"
      using exit_status_cases [of pf] by blast
  qed
  show "first_error pf 0 (warmup_calls 100) = Some e \<longrightarrow> run_benchmark pf = Inl e"
    by (simp add: run_benchmark_eq)
  show "first_error pf 0 (program_calls 100 5 1000000) = Some e \<and>
    calculate_metrics round_double (batch_times pf 0 5) 1000000 = Inr m0 \<and>
    calculate_metrics round_double (batch_times pf 10 5) 1000000 = Inr m1 \<and>
    calculate_metrics round_double (batch_times pf 20 5) 1000000 = Inr m2 \<longrightarrow>
      run_benchmark pf = Inl e"
    using first_generator_error [of pf e m0 m1 m2] by blast
  show "first_error pf 0 (warmup_calls 100) = None \<and>
    first_error pf 400 (replicate (5 * 1000000) CurrentClockSequence) = None \<and>
    calculate_metrics round_double (batch_times pf 0 5) 1000000 = Inl e \<longrightarrow>
      run_benchmark pf = Inl e"
    by (simp add: run_benchmark_eq TEST_CASES_def)
  show "run_benchmark pf =
     (case first_error pf 0 (warmup_calls 100) of
        Some e \<Rightarrow> Inl e
      | None \<Rightarrow>
          (case measure_all module_config pf 400 0 TEST_CASES of
             Inl e \<Rightarrow> Inl e
           | Inr ms \<Rightarrow>
               Inr \<lparr>events = program_events 100 5 1000000,
                    stdout = program_output (version pf) 1000000 ms\<rparr>))"
    by (rule run_benchmark_eq)
  show "exit_status pf = 0 \<longleftrightarrow> (\<exists>st. run_benchmark pf = Inr st)"
    using exit_status_cases [of pf] by blast
  show "exit_status pf = 1 \<longleftrightarrow> (\<exists>e. run_benchmark pf = Inl e)"
    using exit_status_cases [of pf] by blast
qed

theorem exceptions_propagate_witness:
  "run_benchmark starved_platform = Inl OSError \<and> exit_status starved_platform = 1 \<and>
   exit_status steady_platform = 0"
proof -
  have w: "first_error starved_platform 0 (warmup_calls 100) = Some OSError"
    using starved_warmup [of 99] by simp
  from exceptions_propagate [of starved_platform undefined OSError undefined undefined undefined] w
  have r: "run_benchmark starved_platform = Inl OSError" by blast
  from exceptions_propagate [of starved_platform undefined OSError undefined undefined undefined] r
  have "exit_status starved_platform = 1" by blast
  moreover from exceptions_propagate [of steady_platform undefined OSError undefined undefined undefined]
    steady_run
  have "exit_status steady_platform = 0" by blast
  ultimately show ?thesis using r by blast
qed

lemma sorted_items_three:
  "sorted_items
     [(a, \<lparr>avg_ns = 50, stddev_ns = s1, ops_per_sec = p1\<rparr>),
      (b, \<lparr>avg_ns = 20, stddev_ns = s2, ops_per_sec = p2\<rparr>),
      (c, \<lparr>avg_ns = 80, stddev_ns = s3, ops_per_sec = p3\<rparr>)] =
     [(b, \<lparr>avg_ns = 20, stddev_ns = s2, ops_per_sec = p2\<rparr>),
      (a, \<lparr>avg_ns = 50, stddev_ns = s1, ops_per_sec = p1\<rparr>),
      (c, \<lparr>avg_ns = 80, stddev_ns = s3, ops_per_sec = p3\<rparr>)]"
  by (simp add: sorted_items_def)

lemma length_case_lines [simp]: "length (case_lines x) = 3"
  by (simp add: case_lines_def)

lemma drop_program_output:
  "drop 18 (program_output v num (module_results m0 m1 m2 m3)) =
     map table_row (sorted_items (module_results m0 m1 m2 m3))"
  by (simp add: program_output_def update_all_module_results)
    (simp add: module_results_def TEST_CASES_def case_lines_def)

text \<open>
  C4. The rows of the comparison table are the items of \<open>results\<close> in ascending order of
  \<open>avg_ns\<close>: sorted by it, a permutation of the items (items with equal averages keep their
  order of insertion), printed one row each after what was printed before. Averages of 50,
  20 and 80 give the rows in the order 20, 50, 80. In a complete run the table is the last
  four lines of the output.
\<close>

theorem table_sorted_by_average:
  "sorted (map (\<lambda>x. avg_ns (snd x)) (sorted_items results)) \<and>
   mset (sorted_items results) = mset results \<and>
   filter (\<lambda>x. avg_ns (snd x) = k) (sorted_items results) =
     filter (\<lambda>x. avg_ns (snd x) = k) results \<and>
   stdout (print_table results st0) = stdout st0 @ map table_row (sorted_items results) \<and>
   sorted_items
     [(a, \<lparr>avg_ns = 50, stddev_ns = s1, ops_per_sec = p1\<rparr>),
      (b, \<lparr>avg_ns = 20, stddev_ns = s2, ops_per_sec = p2\<rparr>),
      (c, \<lparr>avg_ns = 80, stddev_ns = s3, ops_per_sec = p3\<rparr>)] =
     [(b, \<lparr>avg_ns = 20, stddev_ns = s2, ops_per_sec = p2\<rparr>),
      (a, \<lparr>avg_ns = 50, stddev_ns = s1, ops_per_sec = p1\<rparr>),
      (c, \<lparr>avg_ns = 80, stddev_ns = s3, ops_per_sec = p3\<rparr>)] \<and>
   (run_benchmark pf = Inr st \<longrightarrow>
      (\<exists>m0 m1 m2 m3.
         drop 18 (stdout st) = map table_row (sorted_items (module_results m0 m1 m2 m3)) \<and>
         sorted (map (\<lambda>x. avg_ns (snd x)) (sorted_items (module_results m0 m1 m2 m3)))))"
proof (intro conjI)
  show s: "sorted (map (\<lambda>x. avg_ns (snd x)) (sorted_items results))" for results
    by (simp add: sorted_items_def)
  show "mset (sorted_items results) = mset results"
    by (simp add: sorted_items_def)
  show "filter (\<lambda>x. avg_ns (snd x) = k) (sorted_items results) =
     filter (\<lambda>x. avg_ns (snd x) = k) results"
    by (simp add: sorted_items_def sort_key_stable)
  show "stdout (print_table results st0) = stdout st0 @ map table_row (sorted_items results)"
    by (simp add: print_table_eq)
  show "sorted_items
     [(a, \<lparr>avg_ns = 50, stddev_ns = s1, ops_per_sec = p1\<rparr>),
      (b, \<lparr>avg_ns = 20, stddev_ns = s2, ops_per_sec = p2\<rparr>),
      (c, \<lparr>avg_ns = 80, stddev_ns = s3, ops_per_sec = p3\<rparr>)] =
     [(b, \<lparr>avg_ns = 20, stddev_ns = s2, ops_per_sec = p2\<rparr>),
      (a, \<lparr>avg_ns = 50, stddev_ns = s1, ops_per_sec = p1\<rparr>),
      (c, \<lparr>avg_ns = 80, stddev_ns = s3, ops_per_sec = p3\<rparr>)]"
    by (rule sorted_items_three)
  show "run_benchmark pf = Inr st \<longrightarrow>
      (\<exists>m0 m1 m2 m3.
         drop 18 (stdout st) = map table_row (sorted_items (module_results m0 m1 m2 m3)) \<and>
         sorted (map (\<lambda>x. avg_ns (snd x)) (sorted_items (module_results m0 m1 m2 m3))))"
  proof
    assume "run_benchmark pf = Inr st"
    then obtain m0 m1 m2 m3 where
      "stdout st = program_output (version pf) 1000000 (module_results m0 m1 m2 m3)"
      by (auto simp add: run_benchmark_Inr)
    then have "drop 18 (stdout st) = map table_row (sorted_items (module_results m0 m1 m2 m3))"
      by (simp only: drop_program_output)
    with s show "\<exists>m0 m1 m2 m3.
         drop 18 (stdout st) = map table_row (sorted_items (module_results m0 m1 m2 m3)) \<and>
         sorted (map (\<lambda>x. avg_ns (snd x)) (sorted_items (module_results m0 m1 m2 m3)))"
      by blast
  qed
qed

theorem table_sorted_by_average_witness:
  "\<exists>st m0 m1 m2 m3. run_benchmark steady_platform = Inr st \<and>
     drop 18 (stdout st) = map table_row (sorted_items (module_results m0 m1 m2 m3)) \<and>
     sorted (map (\<lambda>x. avg_ns (snd x)) (sorted_items (module_results m0 m1 m2 m3)))"
proof -
  obtain st where st: "run_benchmark steady_platform = Inr st"
    using steady_run by blast
  have "run_benchmark steady_platform = Inr st \<longrightarrow>
      (\<exists>m0 m1 m2 m3.
         drop 18 (stdout st) = map table_row (sorted_items (module_results m0 m1 m2 m3)) \<and>
         sorted (map (\<lambda>x. avg_ns (snd x)) (sorted_items (module_results m0 m1 m2 m3))))"
    by (rule table_sorted_by_average [where pf = steady_platform and st = st,
          THEN conjunct2, THEN conjunct2, THEN conjunct2, THEN conjunct2, THEN conjunct2])
  with st show ?thesis by auto
qed










end
